theory Spec2Isabelle
  imports Complex_Main
begin

section \<open>Strings\<close>

text \<open>
  A JavaScript string is a sequence of code units. The model uses \<^typ>\<open>string\<close>, whose
  characters are the code units 0 to 255 (ASCII and Latin-1); every builtin below is
  written for that range.
\<close>

text \<open>\<^verbatim>\<open>String.prototype.toLowerCase\<close>, one code unit at a time: A-Z, and the Latin-1
  capitals U+00C0 to U+00DE without the multiplication sign U+00D7, move up by 32.\<close>

definition lowerChar :: "char \<Rightarrow> char" where
  "lowerChar c =
     (let n = (of_char c :: nat)
      in if (65 \<le> n \<and> n \<le> 90) \<or> (192 \<le> n \<and> n \<le> 222 \<and> n \<noteq> 215)
         then char_of (n + 32) else c)"

definition toLowerCase :: "string \<Rightarrow> string" where
  "toLowerCase s = map lowerChar s"

text \<open>The class \<^verbatim>\<open>\s\<close> of a regular expression, which is also what \<^verbatim>\<open>trim\<close> strips: tab,
  line feed, vertical tab, form feed, carriage return, space and the no-break space.\<close>

definition isSpace :: "char \<Rightarrow> bool" where
  "isSpace c = (let n = (of_char c :: nat) in (9 \<le> n \<and> n \<le> 13) \<or> n = 32 \<or> n = 160)"

text \<open>The class \<^verbatim>\<open>[a-z0-9]\<close>.\<close>

definition isLowerAlnum :: "char \<Rightarrow> bool" where
  "isLowerAlnum c = (let n = (of_char c :: nat) in (97 \<le> n \<and> n \<le> 122) \<or> (48 \<le> n \<and> n \<le> 57))"

text \<open>\<^verbatim>\<open>.replace(/[^a-z0-9\s]/g, ' ')\<close>: every code unit outside both classes becomes a space.\<close>

definition replaceNonAlnum :: "string \<Rightarrow> string" where
  "replaceNonAlnum s = map (\<lambda>c. if isLowerAlnum c \<or> isSpace c then c else CHR '' '') s"

text \<open>
  \<^verbatim>\<open>.split(/\s+/)\<close>. The separator matches a maximal run of white space, never the empty
  string, so the pieces are the stretches between the runs: a string that starts or ends
  with white space gives an empty first or last piece, and the empty string gives one
  empty piece. \<open>cur\<close> is the piece being read.
\<close>

function splitLoop :: "string \<Rightarrow> string \<Rightarrow> string list" where
  "splitLoop cur [] = [cur]"
| "splitLoop cur (c # cs) =
     (if isSpace c then cur # splitLoop [] (dropWhile isSpace cs)
      else splitLoop (cur @ [c]) cs)"
  by pat_completeness auto
termination
  by (relation "measure (\<lambda>(cur, s). length s)")
     (auto simp: less_Suc_eq_le length_dropWhile_le)

definition splitWhitespace :: "string \<Rightarrow> string list" where
  "splitWhitespace s = splitLoop [] s"

text \<open>\<^verbatim>\<open>String.prototype.trim\<close>.\<close>

definition trim :: "string \<Rightarrow> string" where
  "trim s = rev (dropWhile isSpace (rev (dropWhile isSpace s)))"

text \<open>\<^verbatim>\<open>String.prototype.includes\<close>: \<open>t\<close> occurs in \<open>h\<close> as a contiguous stretch. (The name
  \<open>includes\<close> is reserved in Isabelle.)\<close>

fun startsWith :: "string \<Rightarrow> string \<Rightarrow> bool" where
  "startsWith h [] = True"
| "startsWith [] (c # t) = False"
| "startsWith (a # h) (c # t) = (a = c \<and> startsWith h t)"

fun strIncludes :: "string \<Rightarrow> string \<Rightarrow> bool" where
  "strIncludes [] t = (t = [])"
| "strIncludes (a # h) t = (startsWith (a # h) t \<or> strIncludes h t)"

text \<open>\<^verbatim>\<open>Array.prototype.join\<close>.\<close>

fun join :: "string \<Rightarrow> string list \<Rightarrow> string" where
  "join sep [] = []"
| "join sep [x] = x"
| "join sep (x # y # ys) = x @ sep @ join sep (y # ys)"

section \<open>The tokenizer\<close>

text \<open>\<^verbatim>\<open>tokenize\<close>: lower case, replace, split, trim every piece, keep the pieces of three
  code units or more.\<close>

definition tokenize :: "string \<Rightarrow> string list" where
  "tokenize text =
     filter (\<lambda>t. 3 \<le> length t)
       (map (\<lambda>t. trim t) (splitWhitespace (replaceNonAlnum (toLowerCase text))))"

section \<open>Values\<close>

text \<open>
  A number is a double: not a number, an infinity, or finite. A finite double is a
  rational, and the model keeps its value exactly (minus zero is zero: the code never
  tells them apart).
\<close>

datatype jsnum = NaN | PosInf | NegInf | Fin rat

definition isFinite :: "jsnum \<Rightarrow> bool" where
  "isFinite n = (case n of Fin r \<Rightarrow> True | _ \<Rightarrow> False)"

text \<open>
  What \<^verbatim>\<open>unknown\<close> ranges over. An object is the list of its own enumerable properties in
  the order \<^verbatim>\<open>Object.entries\<close> gives them; an \<^verbatim>\<open>Error\<close> carries its \<^verbatim>\<open>stack\<close>, when it has
  one, and its \<^verbatim>\<open>message\<close>. Values are trees: an object that contains itself has no
  counterpart here.
\<close>

datatype jsval =
    JUndefined
  | JNull
  | JBool bool
  | JNum jsnum
  | JStr string
  | JBigInt int
  | JSymbol
  | JFunction
  | JError "string option" string
  | JArray "jsval list"
  | JObject "(string \<times> jsval) list"

type_synonym Meta = "(string \<times> jsval) list"

text \<open>\<^verbatim>\<open>meta[key]\<close>: the property's value, \<^verbatim>\<open>undefined\<close> when there is none.\<close>

definition getProp :: "Meta \<Rightarrow> string \<Rightarrow> jsval" where
  "getProp meta key = (case map_of meta key of None \<Rightarrow> JUndefined | Some v \<Rightarrow> v)"

text \<open>
  \<^verbatim>\<open>out[key] = value\<close> on an ordinary object: an existing property keeps its place and takes
  the value, a new one goes last. The key \<^verbatim>\<open>__proto__\<close> is the accessor of
  \<^verbatim>\<open>Object.prototype\<close>: assigning to it creates no property.
\<close>

fun putProp :: "Meta \<Rightarrow> string \<Rightarrow> jsval \<Rightarrow> Meta" where
  "putProp [] key v = [(key, v)]"
| "putProp ((k, w) # rest) key v =
     (if k = key then (k, v) # rest else (k, w) # putProp rest key v)"

definition assignProp :: "Meta \<Rightarrow> string \<Rightarrow> jsval \<Rightarrow> Meta" where
  "assignProp out key v = (if key = ''__proto__'' then out else putProp out key v)"

section \<open>Numbers as text\<close>

fun showNat :: "nat \<Rightarrow> string" where
  "showNat n =
     (if n < 10 then [''0123456789'' ! n]
      else showNat (n div 10) @ [''0123456789'' ! (n mod 10)])"

declare showNat.simps [simp del]

definition showInt :: "int \<Rightarrow> string" where
  "showInt i = (if i < 0 then ''-'' @ showNat (nat (- i)) else showNat (nat i))"

text \<open>
  \<^verbatim>\<open>String(n)\<close> and \<^verbatim>\<open>${n}\<close> for a number: an integer below \<open>10\<^sup>2\<^sup>1\<close> in absolute value is
  printed in decimal. The digits of any other finite double (a fraction, an exponent)
  come from \<open>fmt\<close>, which stands for that part of the builtin.
\<close>

definition numberToString :: "(rat \<Rightarrow> string) \<Rightarrow> jsnum \<Rightarrow> string" where
  "numberToString fmt n =
     (case n of
        NaN \<Rightarrow> ''NaN''
      | PosInf \<Rightarrow> ''Infinity''
      | NegInf \<Rightarrow> ''-Infinity''
      | Fin r \<Rightarrow>
          (if r = of_int \<lfloor>r\<rfloor> \<and> \<bar>r\<bar> < 10 ^ 21 then showInt \<lfloor>r\<rfloor> else fmt r))"

section \<open>Documents and citations\<close>

text \<open>A retrieved chunk. \<open>metadata\<close> is \<open>None\<close> when the field is \<^verbatim>\<open>null\<close> or \<^verbatim>\<open>undefined\<close>.\<close>

record Document =
  pageContent :: string
  metadata :: "Meta option"

definition getString :: "Meta \<Rightarrow> string \<Rightarrow> string option" where
  "getString meta key = (case getProp meta key of JStr s \<Rightarrow> Some s | _ \<Rightarrow> None)"

definition getNumber :: "Meta \<Rightarrow> string \<Rightarrow> jsnum option" where
  "getNumber meta key =
     (case getProp meta key of
        JNum n \<Rightarrow> (if isFinite n then Some n else None)
      | _ \<Rightarrow> None)"

definition formatCite :: "(rat \<Rightarrow> string) \<Rightarrow> Meta \<Rightarrow> string" where
  "formatCite fmt meta =
     (let filename = (case getString meta ''filename'' of Some s \<Rightarrow> s | None \<Rightarrow> ''unknown'');
          page = getNumber meta ''page''
      in case page of
           Some n \<Rightarrow> ''['' @ filename @ '' p.'' @ numberToString fmt n @ '']''
         | None \<Rightarrow> ''['' @ filename @ '']'')"

text \<open>\<^verbatim>\<open>d.metadata ?? {}\<close>.\<close>

definition metaOf :: "Document \<Rightarrow> Meta" where
  "metaOf d = (case metadata d of Some m \<Rightarrow> m | None \<Rightarrow> [])"

text \<open>
  \<^verbatim>\<open>new Set(xs)\<close> adds the elements one by one; a \<^verbatim>\<open>Set\<close> keeps the order of insertion and
  ignores a value it already holds. \<^verbatim>\<open>Array.from\<close> reads it back in that order.
\<close>

definition setAdd :: "'a list \<Rightarrow> 'a \<Rightarrow> 'a list" where
  "setAdd s x = (if x \<in> set s then s else s @ [x])"

definition arrayFromSet :: "'a list \<Rightarrow> 'a list" where
  "arrayFromSet xs = foldl setAdd [] xs"

definition extractCitations :: "(rat \<Rightarrow> string) \<Rightarrow> Document list \<Rightarrow> string list" where
  "extractCitations fmt docs = arrayFromSet (map (\<lambda>d. formatCite fmt (metaOf d)) docs)"

text \<open>\<^verbatim>\<open>buildContext\<close>; \<open>i\<close> is the index of the first chunk of \<open>docs\<close>.\<close>

fun contextBlocks :: "(rat \<Rightarrow> string) \<Rightarrow> nat \<Rightarrow> Document list \<Rightarrow> string list" where
  "contextBlocks fmt i [] = []"
| "contextBlocks fmt i (d # ds) =
     (''Source '' @ showNat (i + 1) @ '' '' @ formatCite fmt (metaOf d) @ [CHR 0x0A]
        @ pageContent d)
     # contextBlocks fmt (i + 1) ds"

definition buildContext :: "(rat \<Rightarrow> string) \<Rightarrow> Document list \<Rightarrow> string" where
  "buildContext fmt docs = join [CHR 0x0A, CHR 0x0A] (contextBlocks fmt 0 docs)"

section \<open>Evidence scoring and the gate\<close>

text \<open>
  \<open>overlapRatio\<close> is the quotient of two counts, kept exactly. The code holds it in a double
  and compares it with the double nearest to 0.45; rounding is monotone and a quotient
  with denominator \<open>t\<close> that differs from 9/20 is at least \<open>1 / (20 t)\<close> away from it, far
  more than the spacing of doubles for any number of tokens a string can hold, so both
  comparisons agree.
\<close>

record EvidenceScore =
  matchedTokens :: nat
  totalTokens :: nat
  overlapRatio :: rat

definition NO_EVIDENCE_MESSAGE :: string where
  "NO_EVIDENCE_MESSAGE =
     ''I could not find sufficient evidence in the provided documents (PDF/TXT) to answer your question.''"

definition MIN_OVERLAP_RATIO :: rat where
  "MIN_OVERLAP_RATIO = 45 / 100"

definition MIN_MATCHED_TOKENS :: nat where
  "MIN_MATCHED_TOKENS = 1"

definition TOP_SOURCES_FOR_SCORING :: nat where
  "TOP_SOURCES_FOR_SCORING = 3"

text \<open>The evidence text: the first chunks, each cut to 1600 code units, joined by a space,
  in lower case.\<close>

definition haystack :: "Document list \<Rightarrow> string" where
  "haystack docs =
     toLowerCase
       (join '' '' (map (\<lambda>d. take 1600 (pageContent d)) (take TOP_SOURCES_FOR_SCORING docs)))"

text \<open>The counting loop over the query tokens; \<open>m\<close> is \<^verbatim>\<open>matchedTokens\<close> so far.\<close>

fun countMatched :: "string \<Rightarrow> string list \<Rightarrow> nat \<Rightarrow> nat" where
  "countMatched hay [] m = m"
| "countMatched hay (t # ts) m = countMatched hay ts (if strIncludes hay t then m + 1 else m)"

definition evidenceScore :: "string \<Rightarrow> Document list \<Rightarrow> EvidenceScore" where
  "evidenceScore question docs =
     (let qTokens = arrayFromSet (tokenize question);
          total = length qTokens
      in if total = 0 then \<lparr>matchedTokens = 0, totalTokens = 0, overlapRatio = 0\<rparr>
         else
           (let hay = haystack docs;
                matched = countMatched hay qTokens 0
            in \<lparr>matchedTokens = matched, totalTokens = total,
                overlapRatio = of_nat matched / of_nat total\<rparr>))"

definition hasEnoughEvidence :: "string \<Rightarrow> Document list \<Rightarrow> bool" where
  "hasEnoughEvidence question docs =
     (if length docs < 2 then False
      else
        (let s = evidenceScore question docs
         in if matchedTokens s < MIN_MATCHED_TOKENS then False
            else if overlapRatio s < MIN_OVERLAP_RATIO then False
            else True))"

section \<open>One question of the command line loop\<close>

text \<open>
  What one pass of the loop of \<^verbatim>\<open>main\<close> does, from the retrieval depth on, as the list of
  its effects in order: a line written by \<^verbatim>\<open>console.log\<close>, a call of
  \<^verbatim>\<open>store.similaritySearch\<close>, a call of \<^verbatim>\<open>llm.invoke\<close> with its messages (role and
  content). The two services are parameters; either may fail, and the failure leaves the
  loop as the exception does.
\<close>

datatype event =
    Log string
  | SimilaritySearch string int
  | Invoke "(string \<times> string) list"

datatype outcome = Continue | Raised string

text \<open>\<^verbatim>\<open>x.toFixed(3)\<close> for \<open>0 \<le> x\<close>: the nearest multiple of 1/1000, the larger one on a
  tie, with three decimals.\<close>

definition toFixed3 :: "rat \<Rightarrow> string" where
  "toFixed3 x =
     (let n = nat \<lfloor>x * 1000 + 1 / 2\<rfloor>
      in showNat (n div 1000) @ ''.'' @
         [''0123456789'' ! (n div 100 mod 10), ''0123456789'' ! (n div 10 mod 10),
          ''0123456789'' ! (n mod 10)])"

definition systemPrompt :: string where
  "systemPrompt =
     join '' ''
       [''You are a strict RAG assistant.'',
        ''Use only the provided sources as evidence.'',
        ''If the sources do not contain enough information to answer, say so clearly.'',
        ''Do not use outside knowledge.'',
        ''Do not fabricate citations.'']"

definition userPrompt :: "string \<Rightarrow> string \<Rightarrow> string" where
  "userPrompt question context =
     join [CHR 0x0A]
       [''Question: '' @ question,
        [],
        ''Sources:'',
        context,
        [],
        ''Output format:'',
        ''[Answer]'',
        ''(Concise, grounded strictly in the sources. Do not include a citations section.)'']"

text \<open>\<^verbatim>\<open>extractCitations(retrieved).slice(0, 5)\<close>.\<close>

definition shownCitations :: "(rat \<Rightarrow> string) \<Rightarrow> Document list \<Rightarrow> string list" where
  "shownCitations fmt retrieved = take 5 (extractCitations fmt retrieved)"

text \<open>\<open>kParsed\<close> is \<^verbatim>\<open>Number(kInput.trim())\<close>, and \<open>question\<close> the trimmed, non-empty input.\<close>

definition retrievalDepth :: "jsnum \<Rightarrow> int" where
  "retrievalDepth kParsed = (case kParsed of Fin r \<Rightarrow> (if 0 < r then \<lfloor>r\<rfloor> else 8) | _ \<Rightarrow> 8)"

definition scoreLine :: "EvidenceScore \<Rightarrow> string" where
  "scoreLine score =
     ''Evidence score: matchedTokens='' @ showNat (matchedTokens score)
       @ '', totalTokens='' @ showNat (totalTokens score)
       @ '', overlapRatio='' @ toFixed3 (overlapRatio score)"

definition answerQuestion ::
  "(rat \<Rightarrow> string) \<Rightarrow> (string \<Rightarrow> int \<Rightarrow> string + Document list)
     \<Rightarrow> ((string \<times> string) list \<Rightarrow> string + string)
     \<Rightarrow> string \<Rightarrow> jsnum \<Rightarrow> event list \<times> outcome" where
  "answerQuestion fmt store llm question kParsed =
     (let k = retrievalDepth kParsed;
          searching = [Log ''Retrieving sources...'', SimilaritySearch question k]
      in case store question k of
           Inl err \<Rightarrow> (searching, Raised err)
         | Inr retrieved \<Rightarrow>
             (let score = evidenceScore question retrieved;
                  scored = searching @
                    [Log (''Retrieved chunks: '' @ showNat (length retrieved)),
                     Log (scoreLine score)]
              in if \<not> hasEnoughEvidence question retrieved
                 then (scored @ [Log NO_EVIDENCE_MESSAGE, Log []], Continue)
                 else
                   (let context = buildContext fmt retrieved;
                        citations = shownCitations fmt retrieved;
                        messages = [(''system'', systemPrompt),
                                    (''user'', userPrompt question context)];
                        asked = scored @ [Log ''Generating answer...'', Invoke messages]
                    in case llm messages of
                         Inl err \<Rightarrow> (asked, Raised err)
                       | Inr content \<Rightarrow>
                           (asked @ [Log (trim content), Log [], Log ''[Citations]'']
                              @ map (\<lambda>c. Log (''- '' @ c)) citations @ [Log []],
                            Continue))))"

section \<open>Metadata sanitization\<close>

text \<open>\<^verbatim>\<open>isPrimitive\<close>: the values Chroma accepts.\<close>

definition isPrimitive :: "jsval \<Rightarrow> bool" where
  "isPrimitive v =
     (case v of JNull \<Rightarrow> True | JStr s \<Rightarrow> True | JNum n \<Rightarrow> True | JBool b \<Rightarrow> True
      | _ \<Rightarrow> False)"

text \<open>
  \<^verbatim>\<open>JSON.stringify(value)\<close> has three ways to end: it throws (a \<^verbatim>\<open>BigInt\<close> anywhere in the
  value), it returns \<^verbatim>\<open>undefined\<close> (for \<^verbatim>\<open>undefined\<close>, a function or a symbol), or it
  returns the text.
\<close>

datatype jsonResult = JsonThrows | JsonUndefined | JsonText string

text \<open>A string in JSON: quotes around it, the quote and the backslash escaped, the
  control characters as their short escape or as \<^verbatim>\<open>\u00XX\<close>.\<close>

definition quoteChar :: "char \<Rightarrow> string" where
  "quoteChar c =
     (let n = (of_char c :: nat)
      in if n = 34 then [CHR 0x5C, CHR 0x22]
         else if n = 92 then [CHR 0x5C, CHR 0x5C]
         else if n = 8 then [CHR 0x5C, CHR ''b'']
         else if n = 9 then [CHR 0x5C, CHR ''t'']
         else if n = 10 then [CHR 0x5C, CHR ''n'']
         else if n = 12 then [CHR 0x5C, CHR ''f'']
         else if n = 13 then [CHR 0x5C, CHR ''r'']
         else if n < 32 then
           [CHR 0x5C, CHR ''u'', CHR ''0'', CHR ''0'',
            ''0123456789abcdef'' ! (n div 16), ''0123456789abcdef'' ! (n mod 16)]
         else [c])"

definition quoteJSON :: "string \<Rightarrow> string" where
  "quoteJSON s = [CHR 0x22] @ concat (map quoteChar s) @ [CHR 0x22]"

text \<open>An array: an element with no text of its own is written \<^verbatim>\<open>null\<close>.\<close>

definition arrayText :: "jsonResult list \<Rightarrow> jsonResult" where
  "arrayText rs =
     (if JsonThrows \<in> set rs then JsonThrows
      else JsonText
        (''['' @ join '','' (map (\<lambda>r. case r of JsonText s \<Rightarrow> s | _ \<Rightarrow> ''null'') rs) @ '']''))"

text \<open>An object: a property with no text of its own is left out.\<close>

definition objectText :: "(string \<times> jsonResult) list \<Rightarrow> jsonResult" where
  "objectText krs =
     (if JsonThrows \<in> set (map snd krs) then JsonThrows
      else JsonText
        (''{'' @
         join '',''
           (concat (map (\<lambda>(k, r). case r of JsonText s \<Rightarrow> [quoteJSON k @ '':'' @ s] | _ \<Rightarrow> []) krs))
         @ ''}''))"

primrec jsonStringify :: "(rat \<Rightarrow> string) \<Rightarrow> jsval \<Rightarrow> jsonResult" where
  "jsonStringify fmt JUndefined = JsonUndefined"
| "jsonStringify fmt JNull = JsonText ''null''"
| "jsonStringify fmt (JBool b) = JsonText (if b then ''true'' else ''false'')"
| "jsonStringify fmt (JNum n) = JsonText (if isFinite n then numberToString fmt n else ''null'')"
| "jsonStringify fmt (JStr s) = JsonText (quoteJSON s)"
| "jsonStringify fmt (JBigInt i) = JsonThrows"
| "jsonStringify fmt JSymbol = JsonUndefined"
| "jsonStringify fmt JFunction = JsonUndefined"
| "jsonStringify fmt (JError stack message) = JsonText ''{}''"
| "jsonStringify fmt (JArray xs) = arrayText (map (jsonStringify fmt) xs)"
| "jsonStringify fmt (JObject kvs) = objectText (map (map_prod id (jsonStringify fmt)) kvs)"

text \<open>\<^verbatim>\<open>Object.prototype.toString.call(value)\<close>.\<close>

definition objectToString :: "jsval \<Rightarrow> string" where
  "objectToString v =
     (case v of
        JUndefined \<Rightarrow> ''[object Undefined]''
      | JNull \<Rightarrow> ''[object Null]''
      | JBool b \<Rightarrow> ''[object Boolean]''
      | JNum n \<Rightarrow> ''[object Number]''
      | JStr s \<Rightarrow> ''[object String]''
      | JBigInt i \<Rightarrow> ''[object BigInt]''
      | JSymbol \<Rightarrow> ''[object Symbol]''
      | JFunction \<Rightarrow> ''[object Function]''
      | JError stack message \<Rightarrow> ''[object Error]''
      | JArray xs \<Rightarrow> ''[object Array]''
      | JObject kvs \<Rightarrow> ''[object Object]'')"

text \<open>
  \<^verbatim>\<open>safeToString\<close>. Its declared result is \<^verbatim>\<open>string\<close>; what it returns in the \<^verbatim>\<open>try\<close> is
  whatever \<^verbatim>\<open>JSON.stringify\<close> returned, so the model's result is a value.
\<close>

definition safeToString :: "(rat \<Rightarrow> string) \<Rightarrow> jsval \<Rightarrow> jsval" where
  "safeToString fmt v =
     (case v of
        JStr s \<Rightarrow> JStr s
      | JNum n \<Rightarrow> JStr (numberToString fmt n)
      | JBool b \<Rightarrow> JStr (if b then ''true'' else ''false'')
      | JError stack message \<Rightarrow> JStr (case stack of Some s \<Rightarrow> s | None \<Rightarrow> message)
      | _ \<Rightarrow>
          (case jsonStringify fmt v of
             JsonText s \<Rightarrow> JStr s
           | JsonUndefined \<Rightarrow> JUndefined
           | JsonThrows \<Rightarrow> JStr (objectToString v)))"

text \<open>The loop of \<^verbatim>\<open>sanitizeForChromaMetadata\<close> over \<^verbatim>\<open>Object.entries(input)\<close>; \<open>out\<close> is the
  object built so far.\<close>

fun sanitizeLoop :: "(rat \<Rightarrow> string) \<Rightarrow> Meta \<Rightarrow> Meta \<Rightarrow> Meta" where
  "sanitizeLoop fmt [] out = out"
| "sanitizeLoop fmt ((key, v) # entries) out =
     (if v = JUndefined then sanitizeLoop fmt entries out
      else if isPrimitive v then sanitizeLoop fmt entries (assignProp out key v)
      else sanitizeLoop fmt entries (assignProp out key (safeToString fmt v)))"

definition sanitizeForChromaMetadata :: "(rat \<Rightarrow> string) \<Rightarrow> Meta \<Rightarrow> Meta" where
  "sanitizeForChromaMetadata fmt input = sanitizeLoop fmt input []"

section \<open>The specification's wording, as definitions\<close>

text \<open>
  The words of a text, as the specification's ``split on whitespace runs'' reads: the
  maximal stretches free of white space, none of them empty.
\<close>

function wordsOf :: "string \<Rightarrow> string list" where
  "wordsOf [] = []"
| "wordsOf (c # cs) =
     (if isSpace c then wordsOf cs
      else (c # takeWhile (\<lambda>x. \<not> isSpace x) cs) # wordsOf (dropWhile (\<lambda>x. \<not> isSpace x) cs))"
  by pat_completeness auto
termination
  by (relation "measure length") (auto simp: less_Suc_eq_le length_dropWhile_le)

text \<open>The tokenizer of the specification: lower case, replace, split into words, trim each,
  drop what is shorter than three.\<close>

definition tokenizeSpec :: "string \<Rightarrow> string list" where
  "tokenizeSpec s =
     filter (\<lambda>t. 3 \<le> length t) (map trim (wordsOf (replaceNonAlnum (toLowerCase s))))"

text \<open>
  The specification's ``deduplicate while preserving first-occurrence order'': the first
  element stays, its later copies go, and so on through the rest.
\<close>

function firstOccurrences :: "'a list \<Rightarrow> 'a list" where
  "firstOccurrences [] = []"
| "firstOccurrences (x # xs) = x # firstOccurrences (filter (\<lambda>y. y \<noteq> x) xs)"
  by pat_completeness auto
termination
  by (relation "measure length") (auto simp: less_Suc_eq_le)

section \<open>Example inputs\<close>

definition boilingChunk :: Document where
  "boilingChunk =
     \<lparr>pageContent = ''water boils at 100 degrees celsius boiling point'',
      metadata = Some [(''filename'', JStr ''a.pdf''), (''page'', JNum (Fin 3))]\<rparr>"

definition steamChunk :: Document where
  "steamChunk = \<lparr>pageContent = ''Steam forms.'', metadata = Some [(''filename'', JStr ''b.txt'')]\<rparr>"

definition pointChunk :: Document where
  "pointChunk = \<lparr>pageContent = ''Straight to the point.'', metadata = None\<rparr>"

text \<open>Two chunks that agree on their first 1600 code units and differ after them.\<close>

definition longChunk :: Document where
  "longChunk = \<lparr>pageContent = replicate 1600 CHR ''x'' @ '' water'', metadata = None\<rparr>"

definition longTail :: string where
  "longTail = replicate 1600 CHR ''x'' @ '' stone''"

text \<open>Four chunks whose labels are \<open>c1, c2, c1, c3\<close>, and nine chunks with seven labels.\<close>

definition fileChunk :: "string \<Rightarrow> Document" where
  "fileChunk name = \<lparr>pageContent = ''text'', metadata = Some [(''filename'', JStr name)]\<rparr>"

definition repeatedChunks :: "Document list" where
  "repeatedChunks = [fileChunk ''c1'', fileChunk ''c2'', fileChunk ''c1'', fileChunk ''c3'']"

definition manyChunks :: "Document list" where
  "manyChunks = map fileChunk [''a'', ''b'', ''a'', ''c'', ''d'', ''b'', ''e'', ''f'', ''g'']"

text \<open>A stand-in for the digits of a number that is not an integer; the numbers of the
  examples are integers.\<close>

definition exampleFmt :: "rat \<Rightarrow> string" where
  "exampleFmt r = ''?''"

text \<open>A store that holds two cooking recipes, a generation service that always answers, and
  a question about something else.\<close>

definition recipeChunks :: "Document list" where
  "recipeChunks =
     [\<lparr>pageContent = ''Whisk two eggs with sugar until pale.'',
       metadata = Some [(''filename'', JStr ''cake.txt''), (''page'', JNull)]\<rparr>,
      \<lparr>pageContent = ''Simmer for an hour and season.'',
       metadata = Some [(''filename'', JStr ''soup.txt''), (''page'', JNull)]\<rparr>]"

definition recipeStore :: "string \<Rightarrow> int \<Rightarrow> string + Document list" where
  "recipeStore query k = Inr recipeChunks"

definition boilingStore :: "string \<Rightarrow> int \<Rightarrow> string + Document list" where
  "boilingStore query k = Inr [boilingChunk, steamChunk]"

definition cannedLlm :: "(string \<times> string) list \<Rightarrow> string + string" where
  "cannedLlm messages = Inr '' At 100 degrees. ''"

definition swallowQuestion :: string where
  "swallowQuestion = ''What is the airspeed velocity of an unladen swallow''"

text \<open>Metadata as a loader may attach it: a nested location, a list, an error, a big
  integer, a property that is \<^verbatim>\<open>undefined\<close>.\<close>

definition loaderMeta :: Meta where
  "loaderMeta =
     [(''source'', JStr ''docs/a.pdf''),
      (''page'', JNull),
      (''loc'', JObject [(''pageNumber'', JNum (Fin 3)), (''lines'', JUndefined)]),
      (''tags'', JArray [JStr ''x'', JBool True, JNum NaN]),
      (''failure'', JError None ''boom''),
      (''size'', JBigInt 7),
      (''title'', JUndefined)]"

text \<open>Metadata with a callback among its values.\<close>

definition callbackMeta :: Meta where
  "callbackMeta = [(''filename'', JStr ''a.pdf''), (''onLoad'', JFunction)]"

section \<open>The tokenizer agrees with the specification\<close>

lemma wordsOf_dropWhile: "wordsOf (dropWhile isSpace s) = wordsOf s"
  by (induction s) auto

lemma wordsOf_word:
  "cur \<noteq> [] \<Longrightarrow> \<forall>x \<in> set cur. \<not> isSpace x \<Longrightarrow> isSpace c \<Longrightarrow>
   wordsOf (cur @ c # cs) = cur # wordsOf cs"
  by (cases cur) auto

lemma wordsOf_nospace:
  "\<forall>x \<in> set cur. \<not> isSpace x \<Longrightarrow> wordsOf cur = (if cur = [] then [] else [cur])"
proof (cases cur)
  case Nil
  then show ?thesis by simp
next
  case (Cons a list)
  assume ns: "\<forall>x \<in> set cur. \<not> isSpace x"
  with Cons have d: "dropWhile (\<lambda>x. \<not> isSpace x) list = []"
    and t: "takeWhile (\<lambda>x. \<not> isSpace x) list = list" by auto
  from Cons ns have "\<not> isSpace a" by simp
  then show ?thesis unfolding Cons
    by (simp add: d t del: dropWhile_eq_Nil_conv takeWhile_eq_all_conv)
qed

text \<open>The pieces of \<^verbatim>\<open>split\<close>, without the empty ones, are the words.\<close>

lemma splitLoop_words:
  "\<forall>x \<in> set cur. \<not> isSpace x \<Longrightarrow>
   filter (\<lambda>t. t \<noteq> []) (splitLoop cur s) = wordsOf (cur @ s)"
proof (induction cur s rule: splitLoop.induct)
  case (1 cur)
  then show ?case by (simp add: wordsOf_nospace)
next
  case (2 cur c cs)
  show ?case
  proof (cases "isSpace c")
    case True
    have rest: "filter (\<lambda>t. t \<noteq> []) (splitLoop [] (dropWhile isSpace cs)) = wordsOf cs"
      using 2(1)[OF True] by (simp add: wordsOf_dropWhile)
    show ?thesis
    proof (cases "cur = []")
      case True
      with \<open>isSpace c\<close> rest show ?thesis by simp
    next
      case False
      with \<open>isSpace c\<close> rest 2(3) show ?thesis by (simp add: wordsOf_word)
    qed
  next
    case False
    with 2(2)[OF False] 2(3) show ?thesis by simp
  qed
qed

lemma filter_trim_nonempty:
  "filter (\<lambda>t. 3 \<le> length t) (map trim (filter (\<lambda>t. t \<noteq> []) xs)) =
   filter (\<lambda>t. 3 \<le> length t) (map trim xs)"
  by (induction xs) (auto simp: trim_def)

lemma tokenize_eq_spec: "tokenize s = tokenizeSpec s"
proof -
  have "filter (\<lambda>t. t \<noteq> []) (splitWhitespace x) = wordsOf x" for x
    using splitLoop_words[of "[]" x] by (simp add: splitWhitespace_def)
  then show ?thesis
    unfolding tokenize_def tokenizeSpec_def
    by (metis filter_trim_nonempty)
qed

lemma tokenize_hello: "tokenize ''Hello, World!'' = [''hello'', ''world'']"
  by code_simp

lemma tokenize_short: "tokenize ''a bb ccc'' = [''ccc'']"
  by code_simp

text \<open>
  Claim C6. For every string, \<open>tokenize\<close> returns what the specification describes: the
  string in lower case, every character outside \<open>[a-z0-9]\<close> and white space replaced by a
  space, split on white space, each piece trimmed, the pieces shorter than three dropped.
  On \<open>Hello, World!\<close> that is \<open>hello\<close>, \<open>world\<close>, and on \<open>a bb ccc\<close> it is \<open>ccc\<close>.
\<close>

theorem tokenize_refines_spec:
  "tokenize s = tokenizeSpec s
   \<and> tokenize ''Hello, World!'' = [''hello'', ''world'']
   \<and> tokenize ''a bb ccc'' = [''ccc'']"
  using tokenize_eq_spec tokenize_hello tokenize_short by simp

section \<open>The evidence gate\<close>

lemma overlapRatio_quotient:
  "overlapRatio (evidenceScore q docs) =
   of_nat (matchedTokens (evidenceScore q docs)) / of_nat (totalTokens (evidenceScore q docs))"
  by (simp add: evidenceScore_def Let_def)

lemma hasEnoughEvidence_unfold:
  "hasEnoughEvidence q docs \<longleftrightarrow>
     2 \<le> length docs \<and> 1 \<le> matchedTokens (evidenceScore q docs)
     \<and> 45 / 100 \<le> overlapRatio (evidenceScore q docs)"
  by (auto simp: hasEnoughEvidence_def Let_def MIN_MATCHED_TOKENS_def MIN_OVERLAP_RATIO_def)

lemma score_boiling_one:
  "evidenceScore ''boiling point'' [boilingChunk] =
   \<lparr>matchedTokens = 2, totalTokens = 2, overlapRatio = 1\<rparr>"
  by code_simp

lemma score_boiling_two:
  "evidenceScore ''What is the boiling point of water'' [boilingChunk, steamChunk] =
   \<lparr>matchedTokens = 3, totalTokens = 5, overlapRatio = 3 / 5\<rparr>"
  by code_simp

lemma score_point_two:
  "evidenceScore ''What is the boiling point of water'' [pointChunk, steamChunk] =
   \<lparr>matchedTokens = 2, totalTokens = 5, overlapRatio = 2 / 5\<rparr>"
  by code_simp

text \<open>
  Claim C1. \<open>hasEnoughEvidence\<close> is true exactly when there are at least two chunks, at
  least one matched token and an overlap ratio of at least 0.45. With fewer than two
  chunks it is false whatever the score. With five tokens, three matched (ratio 0.6) pass
  when there are two chunks or more, and two matched (ratio 0.4) are refused.
\<close>

theorem hasEnoughEvidence_threshold:
  "(hasEnoughEvidence q docs \<longleftrightarrow>
      2 \<le> length docs \<and> 1 \<le> matchedTokens (evidenceScore q docs)
      \<and> 45 / 100 \<le> overlapRatio (evidenceScore q docs))
   \<and> (length docs < 2 \<longrightarrow> \<not> hasEnoughEvidence q docs)
   \<and> (2 \<le> length docs \<and> totalTokens (evidenceScore q docs) = 5
        \<and> matchedTokens (evidenceScore q docs) = 3
      \<longrightarrow> overlapRatio (evidenceScore q docs) = 6 / 10 \<and> hasEnoughEvidence q docs)
   \<and> (totalTokens (evidenceScore q docs) = 5 \<and> matchedTokens (evidenceScore q docs) = 2
      \<longrightarrow> overlapRatio (evidenceScore q docs) = 4 / 10 \<and> \<not> hasEnoughEvidence q docs)"
proof -
  have r: "overlapRatio (evidenceScore q docs) =
    of_nat (matchedTokens (evidenceScore q docs)) / of_nat (totalTokens (evidenceScore q docs))"
    by (rule overlapRatio_quotient)
  show ?thesis
    unfolding hasEnoughEvidence_unfold by (auto simp: r)
qed

theorem hasEnoughEvidence_threshold_witness:
  "length [boilingChunk] < 2
   \<and> overlapRatio (evidenceScore ''boiling point'' [boilingChunk]) = 1
   \<and> \<not> hasEnoughEvidence ''boiling point'' [boilingChunk]
   \<and> 2 \<le> length [boilingChunk, steamChunk]
   \<and> totalTokens (evidenceScore ''What is the boiling point of water'' [boilingChunk, steamChunk]) = 5
   \<and> matchedTokens (evidenceScore ''What is the boiling point of water'' [boilingChunk, steamChunk]) = 3
   \<and> hasEnoughEvidence ''What is the boiling point of water'' [boilingChunk, steamChunk]
   \<and> totalTokens (evidenceScore ''What is the boiling point of water'' [pointChunk, steamChunk]) = 5
   \<and> matchedTokens (evidenceScore ''What is the boiling point of water'' [pointChunk, steamChunk]) = 2
   \<and> \<not> hasEnoughEvidence ''What is the boiling point of water'' [pointChunk, steamChunk]"
  using hasEnoughEvidence_threshold [of "''boiling point''" "[boilingChunk]"]
    hasEnoughEvidence_threshold
      [of "''What is the boiling point of water''" "[boilingChunk, steamChunk]"]
    hasEnoughEvidence_threshold
      [of "''What is the boiling point of water''" "[pointChunk, steamChunk]"]
  by (simp add: score_boiling_one score_boiling_two score_point_two)

section \<open>A question without tokens\<close>

lemma evidenceScore_no_tokens:
  "tokenize q = [] \<Longrightarrow>
   evidenceScore q docs = \<lparr>matchedTokens = 0, totalTokens = 0, overlapRatio = 0\<rparr>"
  by (simp add: evidenceScore_def arrayFromSet_def)

lemma tokenize_empty: "tokenize [] = []"
  by code_simp

lemma tokenize_punctuation: "tokenize ''?! ... --'' = []"
  by code_simp

lemma tokenize_all_short: "tokenize ''Is it so'' = []"
  by code_simp

text \<open>
  Claim C5. When the question has no token (it is empty, or punctuation only, or all its
  words are shorter than three characters), \<open>evidenceScore\<close> is all zero and
  \<open>hasEnoughEvidence\<close> is false, whatever the chunks.
\<close>

theorem no_tokens_refused:
  "tokenize q = [] \<Longrightarrow>
   evidenceScore q docs = \<lparr>matchedTokens = 0, totalTokens = 0, overlapRatio = 0\<rparr>
   \<and> \<not> hasEnoughEvidence q docs"
  by (simp add: evidenceScore_no_tokens hasEnoughEvidence_def MIN_MATCHED_TOKENS_def)

theorem no_tokens_refused_witness:
  "tokenize [] = []
   \<and> evidenceScore [] [boilingChunk, steamChunk]
       = \<lparr>matchedTokens = 0, totalTokens = 0, overlapRatio = 0\<rparr>
   \<and> \<not> hasEnoughEvidence [] [boilingChunk, steamChunk]
   \<and> tokenize ''?! ... --'' = []
   \<and> \<not> hasEnoughEvidence ''?! ... --'' [boilingChunk, steamChunk]
   \<and> tokenize ''Is it so'' = []
   \<and> \<not> hasEnoughEvidence ''Is it so'' [boilingChunk, steamChunk]"
  using no_tokens_refused [OF tokenize_empty, of "[boilingChunk, steamChunk]"]
    no_tokens_refused [OF tokenize_punctuation, of "[boilingChunk, steamChunk]"]
    no_tokens_refused [OF tokenize_all_short, of "[boilingChunk, steamChunk]"]
  by (simp add: tokenize_empty tokenize_punctuation tokenize_all_short)

section \<open>What the score reads\<close>

lemma haystack_take: "haystack (take 3 docs) = haystack docs"
  by (simp add: haystack_def TOP_SOURCES_FOR_SCORING_def)

lemma evidenceScore_haystack:
  "haystack docs = haystack docs' \<Longrightarrow> evidenceScore q docs = evidenceScore q docs'"
  by (simp add: evidenceScore_def Let_def)

lemma haystack_same_heads:
  "map (\<lambda>d. take 1600 (pageContent d)) docs = map (\<lambda>d. take 1600 (pageContent d)) docs'
   \<Longrightarrow> haystack docs = haystack docs'"
  by (simp add: haystack_def take_map [symmetric])

lemma heads_update:
  "i < length docs \<Longrightarrow> take 1600 c = take 1600 (pageContent (docs ! i)) \<Longrightarrow>
   map (\<lambda>d. take 1600 (pageContent d)) (docs[i := (docs ! i)\<lparr>pageContent := c\<rparr>])
   = map (\<lambda>d. take 1600 (pageContent d)) docs"
  by (simp add: map_update list_update_same_conv)

text \<open>
  Claim C7. \<open>evidenceScore\<close> reads the first three chunks only, and of each chunk the first
  1600 characters only: the score of \<open>docs\<close> is the score of its first three chunks, and a
  chunk whose content is replaced by one with the same first 1600 characters leaves the
  score as it was.
\<close>

theorem evidenceScore_reads_heads:
  "evidenceScore q docs = evidenceScore q (take 3 docs)
   \<and> (i < length docs \<and> take 1600 c = take 1600 (pageContent (docs ! i))
      \<longrightarrow> evidenceScore q (docs[i := (docs ! i)\<lparr>pageContent := c\<rparr>]) = evidenceScore q docs)"
proof -
  have "evidenceScore q docs = evidenceScore q (take 3 docs)"
    by (rule evidenceScore_haystack) (simp add: haystack_take)
  moreover have "evidenceScore q (docs[i := (docs ! i)\<lparr>pageContent := c\<rparr>]) = evidenceScore q docs"
    if "i < length docs" "take 1600 c = take 1600 (pageContent (docs ! i))"
    by (rule evidenceScore_haystack, rule haystack_same_heads) (rule heads_update [OF that])
  ultimately show ?thesis by blast
qed

lemma longChunk_head: "take 1600 longTail = take 1600 (pageContent ([longChunk, steamChunk] ! 0))"
  by (simp add: longTail_def longChunk_def)

theorem evidenceScore_reads_heads_witness:
  "(0::nat) < length [longChunk, steamChunk]
   \<and> take 1600 longTail = take 1600 (pageContent ([longChunk, steamChunk] ! 0))
   \<and> longTail \<noteq> pageContent ([longChunk, steamChunk] ! 0)
   \<and> evidenceScore ''water''
        ([longChunk, steamChunk][0 := ([longChunk, steamChunk] ! 0)\<lparr>pageContent := longTail\<rparr>])
      = evidenceScore ''water'' [longChunk, steamChunk]"
  using evidenceScore_reads_heads
    [of "''water''" "[longChunk, steamChunk]" 0 longTail]
    longChunk_head
  by (simp add: longTail_def longChunk_def)

section \<open>Citations\<close>

lemma foldl_setAdd:
  "foldl setAdd acc xs = acc @ firstOccurrences (filter (\<lambda>x. x \<notin> set acc) xs)"
proof (induction xs arbitrary: acc)
  case Nil
  show ?case by simp
next
  case (Cons x xs)
  show ?case
  proof (cases "x \<in> set acc")
    case True
    then show ?thesis using Cons [of acc] by (simp add: setAdd_def)
  next
    case False
    have "filter (\<lambda>y. y \<noteq> x) (filter (\<lambda>y. y \<notin> set acc) xs)
          = filter (\<lambda>y. y \<notin> set (acc @ [x])) xs"
      by (induction xs) auto
    with False show ?thesis using Cons [of "acc @ [x]"] by (simp add: setAdd_def)
  qed
qed

lemma arrayFromSet_firstOccurrences: "arrayFromSet xs = firstOccurrences xs"
  by (simp add: arrayFromSet_def foldl_setAdd)

lemma set_firstOccurrences: "set (firstOccurrences xs) = set xs"
  by (induction xs rule: firstOccurrences.induct) auto

lemma distinct_firstOccurrences: "distinct (firstOccurrences xs)"
  by (induction xs rule: firstOccurrences.induct) (auto simp: set_firstOccurrences)

lemma shownCitations_repeated:
  "map (\<lambda>d. formatCite fmt (metaOf d)) repeatedChunks = [''[c1]'', ''[c2]'', ''[c1]'', ''[c3]'']
   \<and> shownCitations fmt repeatedChunks = [''[c1]'', ''[c2]'', ''[c3]'']"
  by (simp add: repeatedChunks_def fileChunk_def shownCitations_def extractCitations_def
      arrayFromSet_def setAdd_def formatCite_def metaOf_def getString_def getNumber_def
      getProp_def)

lemma shownCitations_many:
  "shownCitations fmt manyChunks = [''[a]'', ''[b]'', ''[c]'', ''[d]'', ''[e]'']"
  by (simp add: manyChunks_def fileChunk_def shownCitations_def extractCitations_def
      arrayFromSet_def setAdd_def formatCite_def metaOf_def getString_def getNumber_def
      getProp_def)

text \<open>
  Claim C9. The citations shown for a sequence of chunks are the labels of the chunks,
  each label kept at its first occurrence only and in that order, cut to the first five.
  Labels \<open>c1, c2, c1, c3\<close> give \<open>c1, c2, c3\<close>.
\<close>

theorem shownCitations_dedup_first_five:
  "shownCitations fmt docs
     = take 5 (firstOccurrences (map (\<lambda>d. formatCite fmt (metaOf d)) docs))
   \<and> distinct (shownCitations fmt docs)
   \<and> length (shownCitations fmt docs) \<le> 5
   \<and> set (extractCitations fmt docs) = set (map (\<lambda>d. formatCite fmt (metaOf d)) docs)
   \<and> map (\<lambda>d. formatCite fmt (metaOf d)) repeatedChunks = [''[c1]'', ''[c2]'', ''[c1]'', ''[c3]'']
   \<and> shownCitations fmt repeatedChunks = [''[c1]'', ''[c2]'', ''[c3]'']
   \<and> shownCitations fmt manyChunks = [''[a]'', ''[b]'', ''[c]'', ''[d]'', ''[e]'']"
proof -
  have e: "extractCitations fmt docs = firstOccurrences (map (\<lambda>d. formatCite fmt (metaOf d)) docs)"
    by (simp add: extractCitations_def arrayFromSet_firstOccurrences)
  have "distinct (shownCitations fmt docs)"
    by (simp add: shownCitations_def e distinct_firstOccurrences)
  moreover have "set (extractCitations fmt docs) = set (map (\<lambda>d. formatCite fmt (metaOf d)) docs)"
    unfolding e by (rule set_firstOccurrences)
  ultimately show ?thesis
    using shownCitations_repeated [of fmt] shownCitations_many [of fmt]
    by (simp add: shownCitations_def e)
qed

section \<open>The citation label\<close>

lemma formatCite_cases:
  "formatCite fmt meta =
     ''['' @ (case getProp meta ''filename'' of JStr s \<Rightarrow> s | _ \<Rightarrow> ''unknown'')
       @ (case getProp meta ''page'' of
            JNum (Fin r) \<Rightarrow> '' p.'' @ numberToString fmt (Fin r)
          | _ \<Rightarrow> [])
       @ '']''"
  by (simp add: formatCite_def getString_def getNumber_def isFinite_def
      split: jsval.splits jsnum.splits)



lemma formatCite_txt_null:
  "formatCite fmt [(''filename'', JStr ''b.txt''), (''page'', JNull)] = ''[b.txt]''"
  by (simp add: formatCite_cases getProp_def)

lemma formatCite_unknown: "formatCite fmt [] = ''[unknown]''"
  by (simp add: formatCite_cases getProp_def)

lemma formatCite_unknown_page:
  "formatCite fmt [(''filename'', JNum (Fin 7)), (''page'', JNum (Fin 12))] = ''[unknown p.12]''"
  by (simp add: formatCite_cases getProp_def numberToString_def showInt_def showNat.simps)



lemma getProp_without:
  "getProp (filter (\<lambda>(k, v). k \<noteq> key) meta) key' =
     (if key' = key then JUndefined else getProp meta key')"
  by (induction meta) (auto simp: getProp_def)

text \<open>
  Claim C10. When \<open>page\<close> is bound to a number that is not finite (\<open>NaN\<close>, an infinity) or to
  a value that is not a number, the label is the one the same metadata gives without its
  \<open>page\<close>: \<open>[filename]\<close>, with no page segment.
\<close>

theorem formatCite_page_ignored:
  "\<forall>r. getProp meta ''page'' \<noteq> JNum (Fin r) \<Longrightarrow>
   formatCite fmt meta = formatCite fmt (filter (\<lambda>(k, v). k \<noteq> ''page'') meta)
   \<and> formatCite fmt meta =
       ''['' @ (case getString meta ''filename'' of Some s \<Rightarrow> s | None \<Rightarrow> ''unknown'') @ '']''"
  by (auto simp: formatCite_cases getProp_without getString_def split: jsval.splits jsnum.splits)

theorem formatCite_page_ignored_witness:
  "(\<forall>r. getProp [(''filename'', JStr ''a.pdf''), (''page'', JNum NaN)] ''page'' \<noteq> JNum (Fin r))
   \<and> formatCite exampleFmt [(''filename'', JStr ''a.pdf''), (''page'', JNum NaN)] = ''[a.pdf]''
   \<and> formatCite exampleFmt [(''filename'', JStr ''a.pdf''), (''page'', JNum PosInf)] = ''[a.pdf]''
   \<and> formatCite exampleFmt [(''filename'', JStr ''a.pdf''), (''page'', JNum NegInf)] = ''[a.pdf]''
   \<and> formatCite exampleFmt [(''filename'', JStr ''a.pdf''), (''page'', JStr ''3'')] = ''[a.pdf]''
   \<and> formatCite exampleFmt [(''page'', JBool True)] = ''[unknown]''
   \<and> formatCite exampleFmt [(''filename'', JStr ''a.pdf''), (''page'', JNum NaN)]
       = formatCite exampleFmt [(''filename'', JStr ''a.pdf'')]"
proof -
  have nan: "\<forall>r. getProp [(''filename'', JStr ''a.pdf''), (''page'', JNum NaN)] ''page'' \<noteq> JNum (Fin r)"
    and pos: "\<forall>r. getProp [(''filename'', JStr ''a.pdf''), (''page'', JNum PosInf)] ''page'' \<noteq> JNum (Fin r)"
    and neg: "\<forall>r. getProp [(''filename'', JStr ''a.pdf''), (''page'', JNum NegInf)] ''page'' \<noteq> JNum (Fin r)"
    and str: "\<forall>r. getProp [(''filename'', JStr ''a.pdf''), (''page'', JStr ''3'')] ''page'' \<noteq> JNum (Fin r)"
    and bool: "\<forall>r. getProp [(''page'', JBool True)] ''page'' \<noteq> JNum (Fin r)"
    by (simp_all add: getProp_def)
  have plain: "formatCite exampleFmt [(''filename'', JStr ''a.pdf'')] = ''[a.pdf]''"
    by (simp add: formatCite_cases getProp_def)
  show ?thesis
    using nan plain formatCite_unknown [of exampleFmt]
      formatCite_page_ignored [OF nan, of exampleFmt]
      formatCite_page_ignored [OF pos, of exampleFmt]
      formatCite_page_ignored [OF neg, of exampleFmt]
      formatCite_page_ignored [OF str, of exampleFmt]
      formatCite_page_ignored [OF bool, of exampleFmt]
    by (simp add: getString_def getProp_def)
qed

section \<open>The refusal path\<close>

lemma answerQuestion_refused:
  assumes "store question (retrievalDepth kParsed) = Inr retrieved"
    and "\<not> hasEnoughEvidence question retrieved"
  shows "answerQuestion fmt store llm question kParsed =
     ([Log ''Retrieving sources...'',
       SimilaritySearch question (retrievalDepth kParsed),
       Log (''Retrieved chunks: '' @ showNat (length retrieved)),
       Log (scoreLine (evidenceScore question retrieved)),
       Log NO_EVIDENCE_MESSAGE,
       Log []],
      Continue)"
  using assms by (simp add: answerQuestion_def Let_def)

text \<open>On the other path the service is called: the event is what records a call.\<close>

lemma answerQuestion_grounded_invokes:
  assumes "store question (retrievalDepth kParsed) = Inr retrieved"
    and "hasEnoughEvidence question retrieved"
  shows "Invoke [(''system'', systemPrompt),
                 (''user'', userPrompt question (buildContext fmt retrieved))]
         \<in> set (fst (answerQuestion fmt store llm question kParsed))"
  using assms by (simp add: answerQuestion_def Let_def split: sum.splits)

lemma swallow_refused: "\<not> hasEnoughEvidence swallowQuestion recipeChunks"
  by code_simp

lemma swallow_score_line:
  "scoreLine (evidenceScore swallowQuestion recipeChunks)
   = ''Evidence score: matchedTokens=0, totalTokens=6, overlapRatio=0.000''"
  by code_simp

lemma boiling_grounded:
  "hasEnoughEvidence ''What is the boiling point of water'' [boilingChunk, steamChunk]"
  by code_simp

text \<open>
  Claim C2. In the processing of one question, when \<open>hasEnoughEvidence\<close> is false for the
  question and the retrieved chunks, the generation service is not invoked, and what is
  written for the question after the retrieval and score lines is the fixed refusal
  text, followed by an empty line: no answer, no citation header, no citation.
\<close>

theorem refusal_without_generation:
  "store question (retrievalDepth kParsed) = Inr retrieved \<Longrightarrow>
   \<not> hasEnoughEvidence question retrieved \<Longrightarrow>
   answerQuestion fmt store llm question kParsed =
     ([Log ''Retrieving sources...'',
       SimilaritySearch question (retrievalDepth kParsed),
       Log (''Retrieved chunks: '' @ showNat (length retrieved)),
       Log (scoreLine (evidenceScore question retrieved))]
      @ [Log ''I could not find sufficient evidence in the provided documents (PDF/TXT) to answer your question.'',
         Log []],
      Continue)
   \<and> (\<forall>messages. Invoke messages \<notin> set (fst (answerQuestion fmt store llm question kParsed)))
   \<and> Log ''[Citations]'' \<notin> set (fst (answerQuestion fmt store llm question kParsed))
   \<and> (\<forall>c. Log (''- '' @ c) \<notin> set (fst (answerQuestion fmt store llm question kParsed)))"
  by (simp add: answerQuestion_refused NO_EVIDENCE_MESSAGE_def scoreLine_def)

theorem refusal_without_generation_witness:
  "recipeStore swallowQuestion (retrievalDepth NaN) = Inr recipeChunks
   \<and> \<not> hasEnoughEvidence swallowQuestion recipeChunks
   \<and> answerQuestion exampleFmt recipeStore cannedLlm swallowQuestion NaN =
       ([Log ''Retrieving sources...'',
         SimilaritySearch swallowQuestion 8,
         Log ''Retrieved chunks: 2'',
         Log ''Evidence score: matchedTokens=0, totalTokens=6, overlapRatio=0.000'',
         Log ''I could not find sufficient evidence in the provided documents (PDF/TXT) to answer your question.'',
         Log []],
        Continue)
   \<and> Invoke [(''system'', systemPrompt),
              (''user'', userPrompt ''What is the boiling point of water''
                 (buildContext exampleFmt [boilingChunk, steamChunk]))]
       \<in> set (fst (answerQuestion exampleFmt boilingStore cannedLlm
                      ''What is the boiling point of water'' NaN))"
proof -
  have s: "recipeStore swallowQuestion (retrievalDepth NaN) = Inr recipeChunks"
    by (simp add: recipeStore_def)
  have r: "retrievalDepth NaN = 8"
    by (simp add: retrievalDepth_def)
  have n: "showNat (length recipeChunks) = ''2''"
    by code_simp
  have b: "boilingStore ''What is the boiling point of water'' (retrievalDepth NaN)
           = Inr [boilingChunk, steamChunk]"
    by (simp add: boilingStore_def)
  have "answerQuestion exampleFmt recipeStore cannedLlm swallowQuestion NaN =
     ([Log ''Retrieving sources...'',
       SimilaritySearch swallowQuestion (retrievalDepth NaN),
       Log (''Retrieved chunks: '' @ showNat (length recipeChunks)),
       Log (scoreLine (evidenceScore swallowQuestion recipeChunks))]
      @ [Log ''I could not find sufficient evidence in the provided documents (PDF/TXT) to answer your question.'',
         Log []],
      Continue)"
    using refusal_without_generation
        [of recipeStore swallowQuestion NaN recipeChunks exampleFmt cannedLlm]
      s swallow_refused
    by blast
  then have a: "answerQuestion exampleFmt recipeStore cannedLlm swallowQuestion NaN =
       ([Log ''Retrieving sources...'',
         SimilaritySearch swallowQuestion 8,
         Log ''Retrieved chunks: 2'',
         Log ''Evidence score: matchedTokens=0, totalTokens=6, overlapRatio=0.000'',
         Log ''I could not find sufficient evidence in the provided documents (PDF/TXT) to answer your question.'',
         Log []],
        Continue)"
    by (simp add: r n swallow_score_line)
  have i: "Invoke [(''system'', systemPrompt),
              (''user'', userPrompt ''What is the boiling point of water''
                 (buildContext exampleFmt [boilingChunk, steamChunk]))]
       \<in> set (fst (answerQuestion exampleFmt boilingStore cannedLlm
                      ''What is the boiling point of water'' NaN))"
    using answerQuestion_grounded_invokes
        [of boilingStore "''What is the boiling point of water''" NaN
          "[boilingChunk, steamChunk]" exampleFmt cannedLlm]
      b boiling_grounded
    by blast
  from s swallow_refused a i show ?thesis
    by (intro conjI)
qed

section \<open>Sanitized metadata\<close>

lemma isPrimitive_not_undefined: "isPrimitive v \<Longrightarrow> v \<noteq> JUndefined"
  by (auto simp: isPrimitive_def)

lemma arrayText_defined: "arrayText rs \<noteq> JsonUndefined"
  by (simp add: arrayText_def)

lemma objectText_defined: "objectText krs \<noteq> JsonUndefined"
  by (simp add: objectText_def)

text \<open>Apart from a function and a symbol, every value that is neither primitive nor
  \<^verbatim>\<open>undefined\<close> is turned into a string.\<close>

lemma safeToString_string:
  "v \<noteq> JFunction \<Longrightarrow> v \<noteq> JSymbol \<Longrightarrow> v \<noteq> JUndefined \<Longrightarrow> \<exists>s. safeToString fmt v = JStr s"
  using arrayText_defined objectText_defined
  by (cases v) (auto simp: safeToString_def split: jsonResult.splits)

lemma putProp_values:
  "\<forall>(k, w) \<in> set out. P w \<Longrightarrow> P v \<Longrightarrow> \<forall>(k, w) \<in> set (putProp out key v). P w"
  by (induction out) (auto split: if_splits)

lemma assignProp_values:
  "\<forall>(k, w) \<in> set out. P w \<Longrightarrow> P v \<Longrightarrow> \<forall>(k, w) \<in> set (assignProp out key v). P w"
  by (simp add: assignProp_def putProp_values)

lemma sanitizeLoop_values:
  "\<forall>(k, v) \<in> set entries. v \<noteq> JFunction \<and> v \<noteq> JSymbol \<Longrightarrow>
   \<forall>(k, w) \<in> set out. isPrimitive w \<Longrightarrow>
   \<forall>(k, w) \<in> set (sanitizeLoop fmt entries out). isPrimitive w"
proof (induction entries arbitrary: out)
  case Nil
  then show ?case by simp
next
  case (Cons e entries)
  obtain key v where e: "e = (key, v)" by (cases e)
  from Cons.prems(1) e have v: "v \<noteq> JFunction" "v \<noteq> JSymbol"
    and rest: "\<forall>(k, v) \<in> set entries. v \<noteq> JFunction \<and> v \<noteq> JSymbol" by auto
  show ?case
  proof (cases "v = JUndefined")
    case True
    with e show ?thesis using Cons.IH [OF rest Cons.prems(2)] by simp
  next
    case False
    show ?thesis
    proof (cases "isPrimitive v")
      case True
      have "\<forall>(k, w) \<in> set (assignProp out key v). isPrimitive w"
        using Cons.prems(2) True by (rule assignProp_values)
      with e False True show ?thesis using Cons.IH [OF rest] by simp
    next
      case False
      from safeToString_string [OF v \<open>v \<noteq> JUndefined\<close>]
      obtain s where s: "safeToString fmt v = JStr s" by blast
      have "\<forall>(k, w) \<in> set (assignProp out key (JStr s)). isPrimitive w"
        using Cons.prems(2) by (rule assignProp_values) (simp add: isPrimitive_def)
      with e \<open>v \<noteq> JUndefined\<close> False s show ?thesis using Cons.IH [OF rest] by simp
    qed
  qed
qed

text \<open>When no value is a function or a symbol, every value of the result is
  a string, a number, a boolean or \<^verbatim>\<open>null\<close>, and none is \<^verbatim>\<open>undefined\<close>.\<close>

theorem sanitize_values_primitive:
  "\<forall>(k, v) \<in> set input. v \<noteq> JFunction \<and> v \<noteq> JSymbol \<Longrightarrow>
   \<forall>(k, w) \<in> set (sanitizeForChromaMetadata fmt input). isPrimitive w \<and> w \<noteq> JUndefined"
proof -
  assume "\<forall>(k, v) \<in> set input. v \<noteq> JFunction \<and> v \<noteq> JSymbol"
  then have "\<forall>(k, w) \<in> set (sanitizeLoop fmt input []). isPrimitive w"
    by (rule sanitizeLoop_values) simp
  then show ?thesis
    by (auto simp: sanitizeForChromaMetadata_def dest: isPrimitive_not_undefined)
qed

lemma sanitize_loaderMeta:
  "sanitizeForChromaMetadata exampleFmt loaderMeta =
     [(''source'', JStr ''docs/a.pdf''),
      (''page'', JNull),
      (''loc'', JStr [CHR ''{'', CHR 0x22, CHR ''p'', CHR ''a'', CHR ''g'', CHR ''e'',
                      CHR ''N'', CHR ''u'', CHR ''m'', CHR ''b'', CHR ''e'', CHR ''r'',
                      CHR 0x22, CHR '':'', CHR ''3'', CHR ''}'']),
      (''tags'', JStr [CHR ''['', CHR 0x22, CHR ''x'', CHR 0x22, CHR '','', CHR ''t'',
                       CHR ''r'', CHR ''u'', CHR ''e'', CHR '','', CHR ''n'', CHR ''u'',
                       CHR ''l'', CHR ''l'', CHR '']'']),
      (''failure'', JStr ''boom''),
      (''size'', JStr ''[object BigInt]'')]"
  by code_simp

theorem sanitize_values_primitive_witness:
  "list_all (\<lambda>(k, v). v \<noteq> JFunction \<and> v \<noteq> JSymbol) loaderMeta
   \<and> list_all (\<lambda>(k, w). isPrimitive w \<and> w \<noteq> JUndefined)
        (sanitizeForChromaMetadata exampleFmt loaderMeta)
   \<and> map fst (sanitizeForChromaMetadata exampleFmt loaderMeta)
       = [''source'', ''page'', ''loc'', ''tags'', ''failure'', ''size'']"
proof -
  have h: "\<forall>(k, v) \<in> set loaderMeta. v \<noteq> JFunction \<and> v \<noteq> JSymbol"
    by (simp add: loaderMeta_def)
  from sanitize_values_primitive [OF h, of exampleFmt] h show ?thesis
    by (simp add: list_all_iff sanitize_loaderMeta)
qed

section \<open>Sanitizing twice\<close>

lemma putProp_new: "key \<notin> fst ` set out \<Longrightarrow> putProp out key v = out @ [(key, v)]"
  by (induction out) auto

lemma putProp_keys:
  "map fst (putProp out key v) =
     (if key \<in> fst ` set out then map fst out else map fst out @ [key])"
  by (induction out) force+

lemma assignProp_distinct:
  "distinct (map fst out) \<Longrightarrow> distinct (map fst (assignProp out key v))"
  by (simp add: assignProp_def putProp_keys)

lemma assignProp_no_proto:
  "''__proto__'' \<notin> fst ` set out \<Longrightarrow> ''__proto__'' \<notin> fst ` set (assignProp out key v)"
proof -
  have "fst ` set (putProp out key v) = set (map fst (putProp out key v))" by simp
  also have "\<dots> \<subseteq> insert key (fst ` set out)" by (auto simp: putProp_keys)
  finally show "''__proto__'' \<notin> fst ` set out \<Longrightarrow> ?thesis"
    by (auto simp: assignProp_def)
qed

lemma sanitizeLoop_keys:
  "distinct (map fst out) \<Longrightarrow> ''__proto__'' \<notin> fst ` set out \<Longrightarrow>
   distinct (map fst (sanitizeLoop fmt entries out))
   \<and> ''__proto__'' \<notin> fst ` set (sanitizeLoop fmt entries out)"
proof (induction entries arbitrary: out)
  case Nil
  then show ?case by simp
next
  case (Cons e entries)
  obtain key v where e: "e = (key, v)" by (cases e)
  have step: "distinct (map fst (sanitizeLoop fmt entries (assignProp out key w)))
      \<and> ''__proto__'' \<notin> fst ` set (sanitizeLoop fmt entries (assignProp out key w))" for w
    by (rule Cons.IH) (rule assignProp_distinct [OF Cons.prems(1)],
        rule assignProp_no_proto [OF Cons.prems(2)])
  show ?case
    unfolding e using step Cons.IH [OF Cons.prems] by simp
qed

text \<open>The loop leaves an object alone whose values are all primitive.\<close>

lemma sanitizeLoop_clean:
  "\<forall>(k, v) \<in> set entries. isPrimitive v \<Longrightarrow> ''__proto__'' \<notin> fst ` set entries \<Longrightarrow>
   distinct (map fst (out @ entries)) \<Longrightarrow>
   sanitizeLoop fmt entries out = out @ entries"
proof (induction entries arbitrary: out)
  case Nil
  then show ?case by simp
next
  case (Cons e entries)
  obtain key v where e: "e = (key, v)" by (cases e)
  from Cons.prems e have v: "isPrimitive v" "v \<noteq> JUndefined" "key \<noteq> ''__proto__''"
    and fresh: "key \<notin> fst ` set out"
    by (auto dest: isPrimitive_not_undefined)
  have a: "assignProp out key v = out @ [(key, v)]"
    using v fresh by (simp add: assignProp_def putProp_new)
  have "sanitizeLoop fmt entries (out @ [(key, v)]) = (out @ [(key, v)]) @ entries"
    using Cons.prems e by (intro Cons.IH) auto
  with e v a show ?case by simp
qed

text \<open>When no value is a function or a symbol, sanitizing the result again returns it
  unchanged.\<close>

theorem sanitize_idempotent_without_callables:
  "\<forall>(k, v) \<in> set input. v \<noteq> JFunction \<and> v \<noteq> JSymbol \<Longrightarrow>
   sanitizeForChromaMetadata fmt (sanitizeForChromaMetadata fmt input)
     = sanitizeForChromaMetadata fmt input"
proof -
  assume h: "\<forall>(k, v) \<in> set input. v \<noteq> JFunction \<and> v \<noteq> JSymbol"
  let ?out = "sanitizeLoop fmt input []"
  have p: "\<forall>(k, w) \<in> set ?out. isPrimitive w"
    using h by (rule sanitizeLoop_values) simp
  have k: "distinct (map fst ?out) \<and> ''__proto__'' \<notin> fst ` set ?out"
    by (rule sanitizeLoop_keys) simp_all
  have "sanitizeLoop fmt ?out [] = [] @ ?out"
    using p k by (intro sanitizeLoop_clean) simp_all
  then show ?thesis by (simp add: sanitizeForChromaMetadata_def)
qed

theorem sanitize_idempotent_without_callables_witness:
  "list_all (\<lambda>(k, v). v \<noteq> JFunction \<and> v \<noteq> JSymbol) loaderMeta
   \<and> sanitizeForChromaMetadata exampleFmt (sanitizeForChromaMetadata exampleFmt loaderMeta)
       = sanitizeForChromaMetadata exampleFmt loaderMeta
   \<and> sanitizeForChromaMetadata exampleFmt loaderMeta \<noteq> loaderMeta"
proof -
  have h: "\<forall>(k, v) \<in> set loaderMeta. v \<noteq> JFunction \<and> v \<noteq> JSymbol"
    by (simp add: loaderMeta_def)
  have "sanitizeForChromaMetadata exampleFmt loaderMeta \<noteq> loaderMeta"
    unfolding sanitize_loaderMeta by (simp add: loaderMeta_def)
  with sanitize_idempotent_without_callables [OF h, of exampleFmt] h show ?thesis
    by (simp add: list_all_iff)
qed

section \<open>A function among the values\<close>

lemma sanitize_callbackMeta:
  "sanitizeForChromaMetadata fmt callbackMeta
     = [(''filename'', JStr ''a.pdf''), (''onLoad'', JUndefined)]"
  by (simp add: sanitizeForChromaMetadata_def callbackMeta_def isPrimitive_def
      safeToString_def assignProp_def)

lemma sanitize_callbackMeta_again:
  "sanitizeForChromaMetadata fmt [(''filename'', JStr ''a.pdf''), (''onLoad'', JUndefined)]
     = [(''filename'', JStr ''a.pdf'')]"
  by (simp add: sanitizeForChromaMetadata_def isPrimitive_def assignProp_def)

text \<open>
  Claim C3 says that every value of the result of \<open>sanitizeForChromaMetadata\<close> is a
  string, a number, a boolean or \<^verbatim>\<open>null\<close> and that no key is bound to \<^verbatim>\<open>undefined\<close>, for
  every input. On metadata that holds a function the result binds the function's key to
  \<^verbatim>\<open>undefined\<close>: \<^verbatim>\<open>JSON.stringify\<close> returns \<^verbatim>\<open>undefined\<close> for a function, and \<open>safeToString\<close>
  returns that.
\<close>

theorem sanitize_function_gives_undefined:
  "sanitizeForChromaMetadata fmt callbackMeta
     = [(''filename'', JStr ''a.pdf''), (''onLoad'', JUndefined)]
   \<and> safeToString fmt JFunction = JUndefined
   \<and> \<not> isPrimitive JUndefined"
  by (simp add: sanitize_callbackMeta safeToString_def isPrimitive_def)

text \<open>
  Claim C4 says that sanitizing twice is sanitizing once. On the same metadata the first
  pass leaves the key \<open>onLoad\<close> bound to \<^verbatim>\<open>undefined\<close> and the second pass drops it.
\<close>

theorem sanitize_function_not_idempotent:
  "sanitizeForChromaMetadata fmt (sanitizeForChromaMetadata fmt callbackMeta)
     = [(''filename'', JStr ''a.pdf'')]
   \<and> sanitizeForChromaMetadata fmt (sanitizeForChromaMetadata fmt callbackMeta)
       \<noteq> sanitizeForChromaMetadata fmt callbackMeta"
  by (simp add: sanitize_callbackMeta sanitize_callbackMeta_again)

end
